theory Spec2Isabelle
  imports Complex_Main "HOL-Library.Sublist"
begin

section \<open>Risk assessment\<close>

text \<open>
  The risk assessor is the Python method \<open>_assess_risks\<close> of
  \<open>python_backend/agents/debate_coordinator.py\<close>. Its threshold chains are quoted
  verbatim in \<open>MVP_READY_TO_SHIP.md\<close> ("Fix 3: Better Risk Assessment Thresholds" and
  "Fix 4: Calculate Volatility & Market Risk Properly"):
  \<^verbatim>\<open>
  if pe_ratio > 100:   valuation_risk = "EXTREME"
  elif pe_ratio > 50:  valuation_risk = "VERY HIGH"
  elif pe_ratio > 30:  valuation_risk = "HIGH"
  elif pe_ratio > 15:  valuation_risk = "MEDIUM"
  else:                valuation_risk = "LOW"

  day_change_pct = abs(price_info.get("day_change_percent", 0))
  volatility_risk = "HIGH" if day_change_pct > 5 else "MEDIUM" if day_change_pct > 2 else "LOW"
  market_risk = "HIGH" if conviction < 4 else "MEDIUM" if conviction < 7 else "LOW"
  \<close>
  The ratio and the day change are Python floats that are only compared with whole
  thresholds. Every finite float is a real number and these comparisons are exact, so both
  are modelled as \<open>real\<close>. The conviction score is an integer.
\<close>

datatype risk_level = LOW | MEDIUM | HIGH | VERY_HIGH | EXTREME

fun valuation_risk :: "real \<Rightarrow> risk_level" where
  "valuation_risk pe_ratio =
     (if pe_ratio > 100 then EXTREME
      else if pe_ratio > 50 then VERY_HIGH
      else if pe_ratio > 30 then HIGH
      else if pe_ratio > 15 then MEDIUM
      else LOW)"

text \<open>\<open>price_info.get("day_change_percent", 0)\<close>: a missing key reads as 0.\<close>

fun volatility_risk :: "real option \<Rightarrow> risk_level" where
  "volatility_risk day_change_percent =
     (let day_change_pct = abs (case day_change_percent of None \<Rightarrow> 0 | Some d \<Rightarrow> d)
      in if day_change_pct > 5 then HIGH else if day_change_pct > 2 then MEDIUM else LOW)"

fun market_risk :: "int \<Rightarrow> risk_level" where
  "market_risk conviction =
     (if conviction < 4 then HIGH else if conviction < 7 then MEDIUM else LOW)"

record risk_profile =
  valuation :: risk_level
  volatility :: risk_level
  market :: risk_level

definition assess_risks :: "real \<Rightarrow> real option \<Rightarrow> int \<Rightarrow> risk_profile" where
  "assess_risks pe_ratio day_change_percent conviction =
     \<lparr> valuation = valuation_risk pe_ratio,
       volatility = volatility_risk day_change_percent,
       market = market_risk conviction \<rparr>"

text \<open>The levels in order of severity, for comparing two risks.\<close>

fun severity :: "risk_level \<Rightarrow> nat" where
  "severity LOW = 0"
| "severity MEDIUM = 1"
| "severity HIGH = 2"
| "severity VERY_HIGH = 3"
| "severity EXTREME = 4"

section \<open>Conviction calculator and action table\<close>

text \<open>
  The conviction calculator is the Python method \<open>_calculate_conviction\<close> of
  \<open>python_backend/agents/debate_coordinator.py\<close>, a file that is not among the sources.
  The sources only describe it (the "Conviction Scoring" and "Action Mapping" blocks of the
  debate-system notes appended to \<open>js/app.js\<close>), with the same deltas, the same inversion
  and the same clamp as the specification. The definitions of this section follow the
  specification, section 4.6.
\<close>

text \<open>Modelled from the spec: the two roles of section 3 (a Case is argued by the
  Proponent or by the Opponent, and one of them wins the Verdict).\<close>

datatype role = Proponent | Opponent

text \<open>Modelled from the spec: the Verdict of section 3 (\<open>winningRole\<close>, \<open>confidence\<close>
  0-100, \<open>rationale\<close>), produced by the arbiter, whose code is missing.\<close>

record verdict =
  winningRole :: role
  confidence :: int
  rationale :: string

text \<open>Modelled from the spec: the strong-signal conditions of section 4.6 that trigger an
  adjustment. Each is triggered upwards, triggered downwards or not triggered; how a
  provider result triggers one is part of the missing calculator.\<close>

datatype trigger = Bullish | Bearish | Quiet

record strong_signals =
  sentiment_skew :: trigger
  institutional_flow :: trigger
  unusual_activity :: trigger

text \<open>Modelled from the spec: a fixed delta, added when the condition is triggered
  upwards and subtracted when it is triggered downwards.\<close>

fun delta :: "real \<Rightarrow> trigger \<Rightarrow> real" where
  "delta d Bullish = d"
| "delta d Bearish = - d"
| "delta d Quiet = 0"

text \<open>Modelled from the spec: "extreme sentiment skew +-1, strong aggregate
  institutional-flow signal +-1.5, unusual-activity bias +-0.5".\<close>

definition signalAdjustments :: "strong_signals \<Rightarrow> real list" where
  "signalAdjustments g =
     [delta 1 (sentiment_skew g), delta (3 / 2) (institutional_flow g),
      delta (1 / 2) (unusual_activity g)]"

text \<open>Modelled from the spec: the \<open>round\<close> of "round(confidence / 10)". The specification
  does not say how a tie is broken, so the rule is a parameter: \<open>HalfUp\<close> rounds a half
  towards plus infinity, \<open>HalfEven\<close> to the even neighbour (Python's \<open>round\<close>).\<close>

datatype tie_rule = HalfUp | HalfEven

fun round_with :: "tie_rule \<Rightarrow> real \<Rightarrow> int" where
  "round_with HalfUp x = \<lfloor>x + 1 / 2\<rfloor>"
| "round_with HalfEven x =
     (let f = \<lfloor>x\<rfloor>; d = x - of_int f
      in if d < 1 / 2 then f else if 1 / 2 < d then f + 1 else if even f then f else f + 1)"

text \<open>Modelled from the spec: "Clamp the result to the closed integer range [1,10]". The
  adjustments are multiples of one half, so the value to clamp need not be whole; the
  ConvictionScore of section 3 is an integer, and the value is rounded with the same rule
  on its way into the range.\<close>

definition clamp_conviction :: "tie_rule \<Rightarrow> real \<Rightarrow> int" where
  "clamp_conviction tie x = max 1 (min 10 (round_with tie x))"

text \<open>Modelled from the spec: "raw = round(confidence / 10) + sum of signalAdjustments.
  If the Opponent won, invert: conviction = 10 - raw. Clamp the result", for a given sum of
  adjustments.\<close>

definition conviction_from :: "tie_rule \<Rightarrow> role \<Rightarrow> int \<Rightarrow> real \<Rightarrow> int" where
  "conviction_from tie winner conf adjustments =
     (let raw = of_int (round_with tie (of_int conf / 10)) + adjustments
      in clamp_conviction tie (if winner = Opponent then 10 - raw else raw))"

text \<open>Modelled from the spec: the Conviction Calculator of section 4.6 on a verdict and the
  triggered signals.\<close>

definition calculate_conviction :: "tie_rule \<Rightarrow> verdict \<Rightarrow> strong_signals \<Rightarrow> int" where
  "calculate_conviction tie v g =
     conviction_from tie (winningRole v) (confidence v) (sum_list (signalAdjustments g))"

text \<open>Modelled from the spec: the Action enum, listed from the most bearish to the most
  bullish.\<close>

datatype action = StrongSell | Sell | Hold | Buy | StrongBuy

text \<open>Modelled from the spec: "Action mapping is a table: 8-10 -> StrongBuy/Buy, 4-7 -> Hold,
  1-3 -> Sell/StrongSell, so thresholds can be recalibrated". The table gives each outer
  band two actions and does not say where the band is cut; the two cuts are the
  recalibratable parameters. A row is (lowest score, highest score, action).\<close>

definition action_table :: "int \<Rightarrow> int \<Rightarrow> (int \<times> int \<times> action) list" where
  "action_table strong_buy_from strong_sell_upto =
     [(strong_buy_from, 10, StrongBuy), (8, strong_buy_from - 1, Buy),
      (4, 7, Hold),
      (strong_sell_upto + 1, 3, Sell), (1, strong_sell_upto, StrongSell)]"

text \<open>Modelled from the spec: the lookup of a score in the table; the first row that
  contains the score decides, and a score in no row has no action.\<close>

definition lookup_action :: "(int \<times> int \<times> action) list \<Rightarrow> int \<Rightarrow> action option" where
  "lookup_action table c =
     map_option (\<lambda>(lo, hi, a). a) (find (\<lambda>(lo, hi, a). lo \<le> c \<and> c \<le> hi) table)"

text \<open>Modelled from the spec: the order in which section 4.6 and section 8 compare two
  actions ("more bearish"), as the position of the action in the enum.\<close>

fun bullishness :: "action \<Rightarrow> nat" where
  "bullishness StrongSell = 0"
| "bullishness Sell = 1"
| "bullishness Hold = 2"
| "bullishness Buy = 3"
| "bullishness StrongBuy = 4"

text \<open>Modelled from the spec: the signals when no adjustment triggers.\<close>

definition quiet :: strong_signals where
  "quiet = \<lparr> sentiment_skew = Quiet, institutional_flow = Quiet, unusual_activity = Quiet \<rparr>"

section \<open>JavaScript strings and regular expressions\<close>

text \<open>
  The front end (\<open>js/app.js\<close> and the later chat script that holds
  \<open>parseResearchData\<close>) works on JavaScript strings, which are sequences of UTF-16 code
  units; its regular expressions carry no \<open>u\<close> flag and so match code unit by code unit.
  A string is a list of code units, and \<open>js\<close> embeds an ASCII literal.
\<close>

type_synonym js_string = "nat list"

definition js :: "string \<Rightarrow> js_string" where
  "js s = map of_char s"

text \<open>
  A character class is a list of inclusive ranges, negated or not; \<open>AnyUnit\<close> is the
  class of every code unit (written as the union of the whitespace class and its
  complement in the source).
\<close>

datatype cclass = OneOf "(nat \<times> nat) list" | NoneOf "(nat \<times> nat) list" | AnyUnit

fun in_ranges :: "(nat \<times> nat) list \<Rightarrow> nat \<Rightarrow> bool" where
  "in_ranges [] c = False"
| "in_ranges ((lo, hi) # rs) c = ((lo \<le> c \<and> c \<le> hi) \<or> in_ranges rs c)"

fun in_class :: "cclass \<Rightarrow> nat \<Rightarrow> bool" where
  "in_class (OneOf rs) c = in_ranges rs c"
| "in_class (NoneOf rs) c = (\<not> in_ranges rs c)"
| "in_class AnyUnit c = True"

definition just :: "char \<Rightarrow> nat \<times> nat" where
  "just c = (of_char c, of_char c)"

text \<open>The whitespace class (ECMAScript WhiteSpace and LineTerminator), the digit class and
  the word class.\<close>

definition space_chars :: "(nat \<times> nat) list" where
  "space_chars =
     [(9, 13), (32, 32), (160, 160), (5760, 5760), (8192, 8202), (8232, 8233),
      (8239, 8239), (8287, 8287), (12288, 12288), (65279, 65279)]"

definition digit_chars :: "(nat \<times> nat) list" where
  "digit_chars = [(48, 57)]"

definition word_chars :: "(nat \<times> nat) list" where
  "word_chars = [(65, 90), (97, 122), (48, 57), (95, 95)]"

text \<open>
  The expressions of the two scripts are sequences of: a literal; a class taken once,
  optionally (\<open>?\<close>), greedily (\<open>*\<close>, \<open>+\<close>) or lazily (\<open>*?\<close>); the two ends of a
  capturing group; and a lookahead \<open>(?=a|b|$)\<close> over literals and the end of the input.
  No quantifier is applied to a group, so a pattern is a flat list of items.
\<close>

datatype quant = Once | Optional | Greedy | AtLeastOnce | Lazy

datatype ahead = ALit js_string | AEnd

datatype item = Lit js_string | Cls quant cclass | Open | Close | Ahead "ahead list"

fun ahead_ok :: "js_string \<Rightarrow> ahead \<Rightarrow> bool" where
  "ahead_ok s (ALit l) = prefix l s"
| "ahead_ok s AEnd = (s = [])"

text \<open>
  \<open>rx_match r s st caps\<close> matches the pattern \<open>r\<close> at the start of \<open>s\<close> by
  backtracking, in the priority order of ECMAScript: a greedy quantifier first tries to
  take one more unit, a lazy one first tries to stop. \<open>st\<close> is the input that remained
  when the open group began, \<open>caps\<close> the groups closed so far. The result is the captures
  and the input left after the match, or \<open>None\<close> when no alternative matches.
\<close>

fun rx_match :: "item list \<Rightarrow> js_string \<Rightarrow> js_string option \<Rightarrow> js_string list
    \<Rightarrow> (js_string list \<times> js_string) option" where
  "rx_match [] s st caps = Some (caps, s)"
| "rx_match (Lit l # r) s st caps =
     (if prefix l s then rx_match r (drop (length l) s) st caps else None)"
| "rx_match (Open # r) s st caps = rx_match r s (Some s) caps"
| "rx_match (Close # r) s st caps =
     (case st of None \<Rightarrow> None
      | Some s0 \<Rightarrow> rx_match r s None (caps @ [take (length s0 - length s) s0]))"
| "rx_match (Ahead alts # r) s st caps =
     (if list_ex (ahead_ok s) alts then rx_match r s st caps else None)"
| "rx_match (Cls Once k # r) [] st caps = None"
| "rx_match (Cls Once k # r) (c # s) st caps =
     (if in_class k c then rx_match r s st caps else None)"
| "rx_match (Cls Optional k # r) [] st caps = rx_match r [] st caps"
| "rx_match (Cls Optional k # r) (c # s) st caps =
     (if in_class k c
      then (case rx_match r s st caps of Some m \<Rightarrow> Some m
            | None \<Rightarrow> rx_match r (c # s) st caps)
      else rx_match r (c # s) st caps)"
| "rx_match (Cls Greedy k # r) [] st caps = rx_match r [] st caps"
| "rx_match (Cls Greedy k # r) (c # s) st caps =
     (if in_class k c
      then (case rx_match (Cls Greedy k # r) s st caps of Some m \<Rightarrow> Some m
            | None \<Rightarrow> rx_match r (c # s) st caps)
      else rx_match r (c # s) st caps)"
| "rx_match (Cls AtLeastOnce k # r) [] st caps = None"
| "rx_match (Cls AtLeastOnce k # r) (c # s) st caps =
     (if in_class k c then rx_match (Cls Greedy k # r) s st caps else None)"
| "rx_match (Cls Lazy k # r) [] st caps = rx_match r [] st caps"
| "rx_match (Cls Lazy k # r) (c # s) st caps =
     (case rx_match r (c # s) st caps of Some m \<Rightarrow> Some m
      | None \<Rightarrow> if in_class k c then rx_match (Cls Lazy k # r) s st caps else None)"

text \<open>
  \<open>String.prototype.match\<close> with an expression without the \<open>g\<close> flag: the leftmost
  match, as the matched text (index 0 of the result array) and the groups (indices 1, 2,
  ...), or \<open>None\<close> for \<open>null\<close>.
\<close>

type_synonym js_match = "js_string \<times> js_string list"

fun rx_search :: "item list \<Rightarrow> js_string \<Rightarrow> js_match option" where
  "rx_search r [] =
     (case rx_match r [] None [] of None \<Rightarrow> None | Some (caps, rest) \<Rightarrow> Some ([], caps))"
| "rx_search r (c # s) =
     (case rx_match r (c # s) None [] of
        Some (caps, rest) \<Rightarrow> Some (take (length (c # s) - length rest) (c # s), caps)
      | None \<Rightarrow> rx_search r s)"

text \<open>
  \<open>String.prototype.replace\<close> with an expression with the \<open>g\<close> flag: every match from
  left to right is replaced by \<open>f\<close> of its groups; after an empty match the next unit is
  copied and the search goes on behind it.
\<close>

function replace_all :: "item list \<Rightarrow> (js_string list \<Rightarrow> js_string) \<Rightarrow> js_string \<Rightarrow> js_string" where
  "replace_all r f [] =
     (case rx_match r [] None [] of None \<Rightarrow> [] | Some (caps, rest) \<Rightarrow> f caps)"
| "replace_all r f (c # s) =
     (case rx_match r (c # s) None [] of
        None \<Rightarrow> c # replace_all r f s
      | Some (caps, rest) \<Rightarrow>
          if length rest < length (c # s) then f caps @ replace_all r f rest
          else f caps @ c # replace_all r f s)"
  by pat_completeness auto
termination
  by (relation "measure (\<lambda>(r, f, s). length s)") simp_all

text \<open>
  An index of a match array is a string or \<open>undefined\<close>. Calling a string method on
  \<open>undefined\<close> throws a TypeError; \<open>parseInt\<close> and \<open>parseFloat\<close> accept it.
\<close>

datatype js_value = Undefined | Str js_string

fun match_group :: "js_match \<Rightarrow> nat \<Rightarrow> js_value" where
  "match_group (m0, caps) 0 = Str m0"
| "match_group (m0, caps) (Suc k) = (if k < length caps then Str (caps ! k) else Undefined)"

datatype js_error = TypeError

text \<open>
  Numbers are IEEE doubles. They are kept as the expression that yields them (the call
  of \<open>parseInt\<close> or \<open>parseFloat\<close> and the scaling applied to it), not evaluated.
\<close>

datatype js_number = ParseInt js_value | ParseFloat js_value | Times js_number nat | Over js_number nat

text \<open>\<open>s.trim()\<close> and \<open>s.replace(/,/g, '')\<close>, on an index of a match array.\<close>

fun trim :: "js_value \<Rightarrow> js_error + js_string" where
  "trim Undefined = Inl TypeError"
| "trim (Str s) =
     Inr (rev (dropWhile (in_ranges space_chars) (rev (dropWhile (in_ranges space_chars) s))))"

fun remove_commas :: "js_value \<Rightarrow> js_error + js_string" where
  "remove_commas Undefined = Inl TypeError"
| "remove_commas (Str s) = Inr (replace_all [Lit (js '','')] (\<lambda>caps. []) s)"

section \<open>parseResearchData\<close>

text \<open>
  The expressions of \<open>parseResearchData\<close>, in the order of the source. The symbols outside
  ASCII are written as their UTF-16 code units: the target emoji U+1F3AF, the light bulb
  U+1F4A1, the bar chart U+1F4CA, the check mark U+2705, the warning sign U+26A0 with its
  variation selector U+FE0F, and the arrow U+2192.
\<close>

definition target_emoji :: js_string where "target_emoji = [55356, 57263]"
definition bulb_emoji :: js_string where "bulb_emoji = [55357, 56481]"
definition chart_emoji :: js_string where "chart_emoji = [55357, 56522]"
definition check_emoji :: js_string where "check_emoji = [9989]"
definition warning_emoji :: js_string where "warning_emoji = [9888, 65039]"
definition arrow :: js_string where "arrow = [8594]"

definition recommendation_rx :: "item list" where
  "recommendation_rx =
     [Lit (target_emoji @ js '' Recommendation:''), Cls Greedy (OneOf space_chars),
      Open, Cls AtLeastOnce (OneOf word_chars), Close]"

definition conviction_rx :: "item list" where
  "conviction_rx =
     [Lit (js ''Conviction:''), Cls Greedy (OneOf space_chars),
      Open, Cls AtLeastOnce (OneOf digit_chars), Close, Lit (js ''/10'')]"

definition price_rx :: "item list" where
  "price_rx =
     [Lit (js ''Price:''), Cls Greedy (OneOf space_chars), Cls Optional (OneOf [just CHR ''$'']),
      Open, Cls AtLeastOnce (OneOf (digit_chars @ [just CHR ''.''])), Close,
      Cls Greedy (OneOf space_chars), Lit arrow, Cls Greedy (OneOf space_chars),
      Cls Optional (OneOf [just CHR ''$'']),
      Open, Cls AtLeastOnce (OneOf (digit_chars @ [just CHR ''.''])), Close,
      Cls Greedy (OneOf space_chars), Lit (js ''(''),
      Open, Cls Optional (OneOf [just CHR ''+'', just CHR ''-'']),
      Cls AtLeastOnce (OneOf (digit_chars @ [just CHR ''.''])), Close,
      Lit (js ''%)'')]"

definition thesis_rx :: "item list" where
  "thesis_rx =
     [Lit (bulb_emoji @ js '' Key Thesis:''), Cls Greedy (OneOf space_chars),
      Open, Cls AtLeastOnce (NoneOf [(10, 10)]), Close]"

definition market_data_rx :: "item list" where
  "market_data_rx =
     [Lit (chart_emoji @ js '' Market Data:''), Cls Lazy AnyUnit,
      Ahead [ALit chart_emoji, ALit check_emoji, ALit warning_emoji, ALit target_emoji, AEnd]]"

definition current_price_rx :: "item list" where
  "current_price_rx =
     [Lit (js ''Current Price:''), Cls Greedy (OneOf space_chars),
      Cls Optional (OneOf [just CHR ''$'']),
      Open, Cls AtLeastOnce (OneOf (digit_chars @ [just CHR ''.'', just CHR '',''])), Close]"

definition market_cap_rx :: "item list" where
  "market_cap_rx =
     [Lit (js ''Market Cap:''), Cls Greedy (OneOf space_chars),
      Cls Optional (OneOf [just CHR ''$'']),
      Open, Cls AtLeastOnce (OneOf (digit_chars @ [just CHR ''.''])), Close,
      Open, Cls Once (OneOf [just CHR ''B'', just CHR ''M'', just CHR ''T'']), Close]"

definition pe_rx :: "item list" where
  "pe_rx =
     [Lit (js ''P/E Ratio:''), Cls Greedy (OneOf space_chars),
      Open, Cls AtLeastOnce (OneOf (digit_chars @ [just CHR ''.''])), Close]"

definition margin_rx :: "item list" where
  "margin_rx =
     [Lit (js ''Profit Margin:''), Cls Greedy (OneOf space_chars),
      Open, Cls AtLeastOnce (OneOf (digit_chars @ [just CHR ''.''])), Close, Lit (js ''%'')]"

definition growth_rx :: "item list" where
  "growth_rx =
     [Lit (js ''Revenue Growth:''), Cls Greedy (OneOf space_chars),
      Open, Cls AtLeastOnce (OneOf (digit_chars @ [just CHR ''.''])), Close, Lit (js ''%'')]"

definition reddit_rx :: "item list" where
  "reddit_rx =
     [Lit (js ''Reddit:''), Cls Greedy (OneOf space_chars),
      Open, Cls AtLeastOnce (OneOf ((65, 90) # space_chars)), Close,
      Cls Greedy (OneOf space_chars), Lit (js ''(''),
      Open, Cls AtLeastOnce (OneOf digit_chars), Close,
      Lit (js ''% bullish,''), Cls Greedy (OneOf space_chars),
      Open, Cls AtLeastOnce (OneOf digit_chars), Close, Lit (js '' mentions)'')]"

definition twitter_rx :: "item list" where
  "twitter_rx =
     [Lit (js ''Twitter:''), Cls Greedy (OneOf space_chars),
      Open, Cls AtLeastOnce (OneOf ((65, 90) # space_chars)), Close,
      Cls Greedy (OneOf space_chars), Lit (js ''(''),
      Open, Cls AtLeastOnce (OneOf digit_chars), Close, Lit (js ''% bullish'')]"

text \<open>
  The object the function returns. A property that the source sets only under an
  \<open>if\<close> is optional; \<open>price_data\<close>, \<open>fundamentals\<close>, \<open>sentiment_data\<close> and
  \<open>news_headlines\<close> come from \<open>sections\<close> and are always there. The two properties
  called \<open>current_price\<close> and the two pairs called \<open>sentiment_label\<close> and
  \<open>sentiment_score\<close> live in different objects and get different field names here.
\<close>

record reddit_obj =
  sentiment_label :: js_string
  sentiment_score :: js_number
  mention_volume :: js_number

record twitter_obj =
  twitter_sentiment_label :: js_string
  twitter_sentiment_score :: js_number

record price_data_obj =
  price_data_current_price :: "js_number option"
  market_cap :: "js_number option"

record fundamentals_obj =
  pe_ratio :: "js_number option"
  profit_margin :: "js_number option"
  revenue_growth :: "js_number option"

record sentiment_data_obj =
  reddit :: "reddit_obj option"
  twitter :: "twitter_obj option"

record research_data =
  ticker :: js_string
  action :: "js_value option"
  conviction :: "js_number option"
  current_price :: "js_number option"
  target_price :: "js_number option"
  upside_pct :: "js_number option"
  key_thesis :: "js_value option"
  price_data :: price_data_obj
  fundamentals :: fundamentals_obj
  sentiment_data :: sentiment_data_obj
  news_headlines :: "js_string list"

text \<open>\<open>cap *= 1e12\<close> for T, \<open>1e9\<close> for B, \<open>1e6\<close> for M.\<close>

definition scale_cap :: "js_number \<Rightarrow> js_value \<Rightarrow> js_number" where
  "scale_cap cap unit =
     (if unit = Str (js ''T'') then Times cap (10 ^ 12)
      else if unit = Str (js ''B'') then Times cap (10 ^ 9)
      else if unit = Str (js ''M'') then Times cap (10 ^ 6)
      else cap)"

text \<open>The block under \<open>if (marketDataMatch)\<close>, which fills \<open>sections.price_data\<close>.\<close>

definition parse_price_data :: "js_string \<Rightarrow> js_error + price_data_obj" where
  "parse_price_data text =
     (case rx_search market_data_rx text of
        None \<Rightarrow> Inr \<lparr> price_data_current_price = None, market_cap = None \<rparr>
      | Some marketDataMatch \<Rightarrow>
          (case match_group marketDataMatch 0 of
             Undefined \<Rightarrow> Inl TypeError
           | Str marketText \<Rightarrow>
               (case (case rx_search current_price_rx marketText of
                        None \<Rightarrow> Inr None
                      | Some priceMatch2 \<Rightarrow>
                          (case remove_commas (match_group priceMatch2 1) of
                             Inl e \<Rightarrow> Inl e
                           | Inr digits \<Rightarrow> Inr (Some (ParseFloat (Str digits))))) of
                  Inl e \<Rightarrow> Inl e
                | Inr cp \<Rightarrow>
                    Inr \<lparr> price_data_current_price = cp,
                          market_cap =
                            (case rx_search market_cap_rx marketText of
                               None \<Rightarrow> None
                             | Some marketCapMatch \<Rightarrow>
                                 Some (scale_cap (ParseFloat (match_group marketCapMatch 1))
                                         (match_group marketCapMatch 2))) \<rparr>)))"

definition parse_fundamentals :: "js_string \<Rightarrow> fundamentals_obj" where
  "parse_fundamentals text =
     \<lparr> pe_ratio =
         map_option (\<lambda>fundMatch. ParseFloat (match_group fundMatch 1)) (rx_search pe_rx text),
       profit_margin =
         map_option (\<lambda>marginMatch. ParseFloat (match_group marginMatch 1))
           (rx_search margin_rx text),
       revenue_growth =
         map_option (\<lambda>growthMatch. ParseFloat (match_group growthMatch 1))
           (rx_search growth_rx text) \<rparr>"

definition parse_reddit :: "js_string \<Rightarrow> js_error + reddit_obj option" where
  "parse_reddit text =
     (case rx_search reddit_rx text of
        None \<Rightarrow> Inr None
      | Some redditMatch \<Rightarrow>
          (case trim (match_group redditMatch 1) of
             Inl e \<Rightarrow> Inl e
           | Inr label \<Rightarrow>
               Inr (Some \<lparr> sentiment_label = label,
                           sentiment_score = Over (ParseInt (match_group redditMatch 2)) 100,
                           mention_volume = ParseInt (match_group redditMatch 3) \<rparr>)))"

definition parse_twitter :: "js_string \<Rightarrow> js_error + twitter_obj option" where
  "parse_twitter text =
     (case rx_search twitter_rx text of
        None \<Rightarrow> Inr None
      | Some twitterMatch \<Rightarrow>
          (case trim (match_group twitterMatch 1) of
             Inl e \<Rightarrow> Inl e
           | Inr label \<Rightarrow>
               Inr (Some \<lparr> twitter_sentiment_label = label,
                           twitter_sentiment_score =
                             Over (ParseInt (match_group twitterMatch 2)) 100 \<rparr>)))"

text \<open>
  The function itself. \<open>Inl\<close> is an exception that leaves the function; the only
  operations of the body that can throw are the string methods called on a group.
\<close>

definition parseResearchData :: "js_string \<Rightarrow> js_string \<Rightarrow> js_error + research_data" where
  "parseResearchData text tkr =
     (let recMatch = rx_search recommendation_rx text;
          convMatch = rx_search conviction_rx text;
          priceMatch = rx_search price_rx text;
          thesisMatch = rx_search thesis_rx text
      in case parse_price_data text of
           Inl e \<Rightarrow> Inl e
         | Inr pd \<Rightarrow>
             (case parse_reddit text of
                Inl e \<Rightarrow> Inl e
              | Inr rd \<Rightarrow>
                  (case parse_twitter text of
                     Inl e \<Rightarrow> Inl e
                   | Inr tw \<Rightarrow>
                       Inr \<lparr> ticker = tkr,
                             action = map_option (\<lambda>m. match_group m 1) recMatch,
                             conviction = map_option (\<lambda>m. ParseInt (match_group m 1)) convMatch,
                             current_price =
                               map_option (\<lambda>m. ParseFloat (match_group m 1)) priceMatch,
                             target_price =
                               map_option (\<lambda>m. ParseFloat (match_group m 2)) priceMatch,
                             upside_pct =
                               map_option (\<lambda>m. ParseFloat (match_group m 3)) priceMatch,
                             key_thesis = map_option (\<lambda>m. match_group m 1) thesisMatch,
                             price_data = pd,
                             fundamentals = parse_fundamentals text,
                             sentiment_data = \<lparr> reddit = rd, twitter = tw \<rparr>,
                             news_headlines = [] \<rparr>)))"

text \<open>The object with the ticker alone: no optional property, every section empty.\<close>

definition ticker_only :: "js_string \<Rightarrow> research_data" where
  "ticker_only tkr =
     \<lparr> ticker = tkr, action = None, conviction = None, current_price = None,
       target_price = None, upside_pct = None, key_thesis = None,
       price_data = \<lparr> price_data_current_price = None, market_cap = None \<rparr>,
       fundamentals = \<lparr> pe_ratio = None, profit_margin = None, revenue_growth = None \<rparr>,
       sentiment_data = \<lparr> reddit = None, twitter = None \<rparr>,
       news_headlines = [] \<rparr>"

text \<open>
  An answer of the research engine, abridged from the "Example Usage" block of the project
  notes (the Tesla research): recommendation, conviction, prices, key thesis, a
  market-data block and the two sentiment lines.
\<close>

definition example_report :: js_string where
  "example_report =
     target_emoji @ js '' Recommendation: SELL'' @ [10]
     @ js ''Conviction: 2/10 '' @ [11088, 11088, 10]
     @ js ''Price: $436 '' @ arrow @ js '' $370.60 (-15%)'' @ [10, 10]
     @ bulb_emoji @ js '' Key Thesis:'' @ [10] @ js ''The increasing competition'' @ [10, 10]
     @ chart_emoji @ js '' Market Data:'' @ [10]
     @ js ''P/E Ratio: 302.78x'' @ [10] @ js ''Market Cap: $1.53T'' @ [10, 10]
     @ js ''Reddit: BEARISH (33% bullish)'' @ [10]
     @ js ''Twitter: VERY BULLISH (75% bullish)'' @ [10]
     @ warning_emoji @ js '' Bear Case''"

section \<open>linkifyText\<close>

text \<open>
  \<open>linkifyText\<close> of \<open>js/app.js\<close>: five replacements that escape the text, one that
  wraps every URL in an anchor, one that turns a newline into a line break.
\<close>

definition urlPattern :: "item list" where
  "urlPattern =
     [Open, Lit (js ''http''), Cls Optional (OneOf [just CHR ''s'']), Lit (js ''://''),
      Cls AtLeastOnce (NoneOf space_chars), Close]"

text \<open>\<open>$1\<close> in a replacement string: the first group, or the two characters themselves
  when the expression has no group.\<close>

fun dollar1 :: "js_string list \<Rightarrow> js_string" where
  "dollar1 [] = js ''$1''"
| "dollar1 (g # gs) = g"

definition anchor :: "js_string \<Rightarrow> js_string" where
  \<open>anchor url =
     js ''<a href="'' @ url @ js ''" target="_blank" rel="noopener noreferrer">'' @ url
     @ js ''</a>''\<close>

definition escapeHtml :: "js_string \<Rightarrow> js_string" where
  \<open>escapeHtml text =
     replace_all [Lit (js [CHR 0x27])] (\<lambda>caps. js ''&#039;'')
       (replace_all [Lit (js ''"'')] (\<lambda>caps. js ''&quot;'')
         (replace_all [Lit (js ''>'')] (\<lambda>caps. js ''&gt;'')
           (replace_all [Lit (js ''<'')] (\<lambda>caps. js ''&lt;'')
             (replace_all [Lit (js ''&'')] (\<lambda>caps. js ''&amp;'') text))))\<close>

definition linkifyText :: "js_string \<Rightarrow> js_string" where
  "linkifyText text =
     (let escaped = escapeHtml text;
          linked = replace_all urlPattern (\<lambda>caps. anchor (dollar1 caps)) escaped
      in replace_all [Lit [10]] (\<lambda>caps. js ''<br>'') linked)"

section \<open>Vocabulary of the statements\<close>

text \<open>The four characters that can open or close a tag or an attribute value.\<close>

definition html_special :: "nat list" where
  \<open>html_special = js ''<>"'' @ js [CHR 0x27]\<close>

text \<open>The entity of a character, as one pass over the text would write it.\<close>

definition entity :: "nat \<Rightarrow> js_string" where
  \<open>entity c =
     (if c = of_char CHR ''&'' then js ''&amp;''
      else if c = of_char CHR ''<'' then js ''&lt;''
      else if c = of_char CHR ''>'' then js ''&gt;''
      else if c = of_char CHR ''"'' then js ''&quot;''
      else if c = of_char (CHR 0x27) then js ''&#039;''
      else [c])\<close>

text \<open>
  A rendered message as a sequence of pieces: a character of text, a line break, or an
  anchor around a URL. \<open>render\<close> is the HTML of a piece, \<open>visible\<close> the text it
  shows.
\<close>

datatype piece = Plain nat | LineBreak | Anchor js_string

fun render :: "piece \<Rightarrow> js_string" where
  "render (Plain c) = [c]"
| "render LineBreak = js ''<br>''"
| "render (Anchor url) = anchor url"

fun visible :: "piece \<Rightarrow> js_string" where
  "visible (Plain c) = [c]"
| "visible LineBreak = [10]"
| "visible (Anchor url) = url"

definition nonspace :: "nat \<Rightarrow> bool" where
  "nonspace c = (\<not> in_ranges space_chars c)"

text \<open>
  A piece is clean when its text holds none of the four special characters; a clean
  character is not a newline either (a newline is a line break), and a clean URL holds
  no whitespace.
\<close>

fun clean :: "piece \<Rightarrow> bool" where
  "clean (Plain c) = (c \<notin> set html_special \<and> c \<noteq> 10)"
| "clean LineBreak = True"
| "clean (Anchor url) = list_all (\<lambda>c. c \<notin> set html_special \<and> nonspace c) url"

fun br_piece :: "piece \<Rightarrow> piece" where
  "br_piece (Plain c) = (if c = 10 then LineBreak else Plain c)"
| "br_piece LineBreak = LineBreak"
| "br_piece (Anchor u) = Anchor u"

definition newline_to_br :: "js_string \<Rightarrow> js_string" where
  "newline_to_br s = concat (map (\<lambda>x. if x = 10 then js ''<br>'' else [x]) s)"

text \<open>Every unit an item can consume satisfies \<open>Q\<close>.\<close>

fun item_within :: "(nat \<Rightarrow> bool) \<Rightarrow> item \<Rightarrow> bool" where
  "item_within Q (Lit l) = list_all Q l"
| "item_within Q (Cls q k) = (\<forall>c. in_class k c \<longrightarrow> Q c)"
| "item_within Q Open = True"
| "item_within Q Close = True"
| "item_within Q (Ahead alts) = True"

text \<open>The pattern is the inside of one group: no group opens in it and the only
  \<open>Close\<close> is its last item.\<close>

fun closes_at_end :: "item list \<Rightarrow> bool" where
  "closes_at_end [] = False"
| "closes_at_end [Close] = True"
| "closes_at_end (Open # r) = False"
| "closes_at_end (Close # r) = False"
| "closes_at_end (i # r) = closes_at_end r"

text \<open>A piece of the text before the newlines are replaced.\<close>

fun linked_piece :: "piece \<Rightarrow> bool" where
  "linked_piece (Plain c) = (c \<notin> set html_special)"
| "linked_piece LineBreak = False"
| "linked_piece (Anchor u) = list_all (\<lambda>c. c \<notin> set html_special \<and> nonspace c) u"

section \<open>Lemmas about the matcher\<close>

text \<open>A successful match closes every group of its pattern.\<close>

lemma rx_match_captures:
  "rx_match r s st caps = Some (caps', rest)
   \<Longrightarrow> length caps + count_list r Close = length caps'"
  by (induction r s st caps arbitrary: caps' rest rule: rx_match.induct)
     (simp_all split: if_splits option.splits)

lemma rx_search_captures:
  "rx_search r s = Some (m0, caps) \<Longrightarrow> length caps = count_list r Close"
  by (induction r s rule: rx_search.induct)
     (auto split: option.splits dest: rx_match_captures)

lemma group1_defined:
  assumes "rx_search r s = Some m" and "0 < count_list r Close"
  shows "\<exists>g. match_group m (Suc 0) = Str g"
proof -
  obtain m0 caps where m: "m = (m0, caps)" by (cases m)
  with assms have "0 < length caps" using rx_search_captures [of r s m0 caps] by simp
  with m show ?thesis by simp
qed

lemma match_group_2:
  "match_group (m0, caps) 2 = (if 1 < length caps then Str (caps ! 1) else Undefined)"
  by (simp add: numeral_2_eq_2)

lemma match_group_3:
  "match_group (m0, caps) 3 =
     (if Suc (Suc 0) < length caps then Str (caps ! Suc (Suc 0)) else Undefined)"
  by (simp add: numeral_3_eq_3)

text \<open>What a match leaves and what it captures is made of units of the input.\<close>

lemma rx_match_subset:
  "rx_match r s st caps = Some (caps', rest) \<Longrightarrow> set s \<subseteq> A
     \<Longrightarrow> (case st of None \<Rightarrow> True | Some s0 \<Rightarrow> set s0 \<subseteq> A)
     \<Longrightarrow> list_all (\<lambda>c. set c \<subseteq> A) caps
     \<Longrightarrow> list_all (\<lambda>c. set c \<subseteq> A) caps' \<and> set rest \<subseteq> A"
proof (induction r s st caps arbitrary: caps' rest rule: rx_match.induct)
  case (2 l r s st caps)
  from "2.prems"(1) have p: "prefix l s"
    and m: "rx_match r (drop (length l) s) st caps = Some (caps', rest)"
    by (auto split: if_splits)
  have "set (drop (length l) s) \<subseteq> A"
    using "2.prems"(2) set_drop_subset [of "length l" s] by blast
  then show ?case
    using "2.IH" [OF p m] "2.prems" by simp
next
  case (4 r s st caps)
  from "4.prems"(1) obtain s0 where st: "st = Some s0"
    and m: "rx_match r s None (caps @ [take (length s0 - length s) s0]) = Some (caps', rest)"
    by (auto split: option.splits)
  have "set (take (length s0 - length s) s0) \<subseteq> A"
    using "4.prems"(3) st set_take_subset [of "length s0 - length s" s0] by auto
  then show ?case
    using "4.IH" [OF st m] "4.prems" by simp
qed (auto split: if_splits option.splits)

text \<open>When every item of a pattern consumes only units that satisfy \<open>Q\<close>, so does
  every group it captures.\<close>

lemma rx_match_within:
  "rx_match r s st caps = Some (caps', rest) \<Longrightarrow> list_all (item_within Q) r
     \<Longrightarrow> (case st of None \<Rightarrow> True | Some s0 \<Rightarrow> \<exists>w0. s0 = w0 @ s \<and> list_all Q w0)
     \<Longrightarrow> list_all (list_all Q) caps
     \<Longrightarrow> list_all (list_all Q) caps'"
proof (induction r s st caps arbitrary: caps' rest rule: rx_match.induct)
  case (2 l r s st caps)
  from "2.prems"(1) have p: "prefix l s"
    and m: "rx_match r (drop (length l) s) st caps = Some (caps', rest)"
    by (auto split: if_splits)
  from p obtain s' where s: "s = l @ s'" by (auto simp: prefix_def)
  have "case st of None \<Rightarrow> True
        | Some s0 \<Rightarrow> \<exists>w0. s0 = w0 @ drop (length l) s \<and> list_all Q w0"
  proof (cases st)
    case None
    then show ?thesis by simp
  next
    case (Some s0)
    with "2.prems"(3) obtain w0 where "s0 = w0 @ s" "list_all Q w0" by auto
    with s "2.prems"(2) have "s0 = (w0 @ l) @ drop (length l) s \<and> list_all Q (w0 @ l)"
      by simp
    with Some show ?thesis by auto
  qed
  then show ?case
    using "2.IH" [OF p m] "2.prems" by simp
next
  case (4 r s st caps)
  from "4.prems"(1) obtain s0 where st: "st = Some s0"
    and m: "rx_match r s None (caps @ [take (length s0 - length s) s0]) = Some (caps', rest)"
    by (auto split: option.splits)
  from "4.prems"(3) st obtain w0 where "s0 = w0 @ s" "list_all Q w0" by auto
  then have "list_all Q (take (length s0 - length s) s0)" by simp
  then show ?case
    using "4.IH" [OF st m] "4.prems" by simp
next
  case (3 r s st caps)
  then show ?case by simp
qed (auto split: if_splits option.splits)

text \<open>A match consumes a front part of the input, and a pattern that is the inside of
  one group captures exactly what it consumes.\<close>

lemma rx_match_suffix:
  "rx_match r s st caps = Some (caps', rest) \<Longrightarrow> suffix rest s"
proof (induction r s st caps arbitrary: caps' rest rule: rx_match.induct)
  case (2 l r s st caps)
  from "2.prems" have p: "prefix l s"
    and m: "rx_match r (drop (length l) s) st caps = Some (caps', rest)"
    by (auto split: if_splits)
  from "2.IH" [OF p m] have "suffix rest (drop (length l) s)" .
  then show ?case using suffix_drop suffix_order.trans by blast
qed (auto split: if_splits option.splits intro: suffix_ConsI)

lemma rx_match_tail_capture:
  "rx_match r s st caps = Some (caps', rest) \<Longrightarrow> closes_at_end r \<Longrightarrow> st = Some s0
   \<Longrightarrow> caps' = caps @ [take (length s0 - length rest) s0]"
proof (induction r s st caps arbitrary: caps' rest rule: rx_match.induct)
  case (4 r s st caps)
  from "4.prems"(2) have "r = []" by (cases r) auto
  with "4.prems" show ?case by auto
qed (auto split: if_splits option.splits)

lemma url_match_whole:
  assumes "rx_match urlPattern s None [] = Some (caps, rest)"
  shows "\<exists>u. caps = [u] \<and> s = u @ rest"
proof -
  from assms have m: "rx_match (tl urlPattern) s (Some s) [] = Some (caps, rest)"
    by (simp add: urlPattern_def)
  have "closes_at_end (tl urlPattern)" by (simp add: urlPattern_def)
  from rx_match_tail_capture [OF m this refl]
  have c: "caps = [take (length s - length rest) s]" by simp
  from rx_match_suffix [OF m] obtain u where u: "s = u @ rest" by (auto simp: suffix_def)
  with c show ?thesis by simp
qed

text \<open>Replacing one character everywhere is a map over the text.\<close>

lemma replace_char:
  "replace_all [Lit [c]] (\<lambda>caps. rep) s = concat (map (\<lambda>x. if x = c then rep else [x]) s)"
  by (induction s) auto

lemma concat_map_concat_map:
  "concat (map g (concat (map f xs))) = concat (map (\<lambda>x. concat (map g (f x))) xs)"
  by (induction xs) auto

section \<open>Lemmas about parseResearchData\<close>

lemma parse_reddit_ok:
  "\<exists>rd. parse_reddit s = Inr rd \<and> (rd = None) = (rx_search reddit_rx s = None)"
proof (cases "rx_search reddit_rx s")
  case None
  then show ?thesis by (simp add: parse_reddit_def)
next
  case (Some m)
  then obtain g where "match_group m (Suc 0) = Str g"
    using group1_defined [of reddit_rx s m] by (auto simp: reddit_rx_def)
  with Some show ?thesis by (simp add: parse_reddit_def)
qed

lemma parse_twitter_ok:
  "\<exists>tw. parse_twitter s = Inr tw \<and> (tw = None) = (rx_search twitter_rx s = None)"
proof (cases "rx_search twitter_rx s")
  case None
  then show ?thesis by (simp add: parse_twitter_def)
next
  case (Some m)
  then obtain g where "match_group m (Suc 0) = Str g"
    using group1_defined [of twitter_rx s m] by (auto simp: twitter_rx_def)
  with Some show ?thesis by (simp add: parse_twitter_def)
qed

lemma parse_price_data_ok:
  "\<exists>pd. parse_price_data s = Inr pd
     \<and> (price_data_current_price pd = None) =
         (case rx_search market_data_rx s of None \<Rightarrow> True
          | Some m \<Rightarrow> rx_search current_price_rx (fst m) = None)
     \<and> (market_cap pd = None) =
         (case rx_search market_data_rx s of None \<Rightarrow> True
          | Some m \<Rightarrow> rx_search market_cap_rx (fst m) = None)"
proof (cases "rx_search market_data_rx s")
  case None
  then show ?thesis by (simp add: parse_price_data_def)
next
  case (Some m)
  obtain m0 caps where m: "m = (m0, caps)" by (cases m)
  show ?thesis
  proof (cases "rx_search current_price_rx m0")
    case None
    with \<open>rx_search market_data_rx s = Some m\<close> m show ?thesis
      by (simp add: parse_price_data_def split: option.splits)
  next
    case (Some p)
    then obtain g where "match_group p (Suc 0) = Str g"
      using group1_defined [of current_price_rx m0 p] by (auto simp: current_price_rx_def)
    with Some \<open>rx_search market_data_rx s = Some m\<close> m show ?thesis
      by (simp add: parse_price_data_def split: option.splits)
  qed
qed

section \<open>Lemmas about linkifyText\<close>

lemma escapeHtml_entity: "escapeHtml s = concat (map entity s)"
proof -
  define sub
    where "sub = (\<lambda>c rep s. concat (map (\<lambda>x::nat. if x = c then rep else [x]) s))"
  have one: "entity x = sub 39 (js ''&#039;'') (sub 34 (js ''&quot;'') (sub 62 (js ''&gt;'')
      (sub 60 (js ''&lt;'') (sub 38 (js ''&amp;'') [x]))))" for x
    by (simp add: entity_def js_def sub_def)
  have hom: "sub c rep (concat (map f xs)) = concat (map (\<lambda>x. sub c rep (f x)) xs)"
    for c rep f xs
    unfolding sub_def by (rule concat_map_concat_map)
  have "escapeHtml s = sub 39 (js ''&#039;'') (sub 34 (js ''&quot;'') (sub 62 (js ''&gt;'')
      (sub 60 (js ''&lt;'') (sub 38 (js ''&amp;'') s))))"
    by (simp add: escapeHtml_def replace_char sub_def js_def)
  also have "sub 38 (js ''&amp;'') s = concat (map (\<lambda>x. sub 38 (js ''&amp;'') [x]) s)"
    by (simp add: sub_def)
  finally show ?thesis
    by (simp add: hom one [symmetric])
qed

lemma entity_clean: "c \<in> set (entity x) \<Longrightarrow> c \<notin> set html_special"
  by (auto simp: entity_def html_special_def js_def split: if_splits)

lemma escapeHtml_clean: "c \<in> set (escapeHtml s) \<Longrightarrow> c \<notin> set html_special"
  by (auto simp: escapeHtml_entity dest: entity_clean)

lemma urlPattern_within: "list_all (item_within nonspace) urlPattern"
  by (simp add: urlPattern_def nonspace_def js_def space_chars_def just_def)

lemma url_caps:
  assumes m: "rx_match urlPattern s None [] = Some (caps, rest)"
    and s: "set s \<inter> set html_special = {}"
  shows "list_all (\<lambda>c. c \<notin> set html_special \<and> nonspace c) (dollar1 caps)
         \<and> set rest \<inter> set html_special = {} \<and> dollar1 caps @ rest = s"
proof -
  from url_match_whole [OF m] obtain u where u: "caps = [u]" "s = u @ rest" by blast
  have sub: "list_all (\<lambda>c. set c \<subseteq> set s) caps \<and> set rest \<subseteq> set s"
    using rx_match_subset [OF m, of "set s"] by simp
  have win: "list_all (list_all nonspace) caps"
    using rx_match_within [OF m urlPattern_within] by simp
  have "list_all (\<lambda>c. c \<notin> set html_special \<and> nonspace c) (dollar1 caps)"
  proof (cases caps)
    case Nil
    then show ?thesis
      by (simp add: js_def html_special_def nonspace_def space_chars_def)
  next
    case (Cons g gs)
    with sub win s show ?thesis
      by (auto simp: list_all_iff)
  qed
  with sub s u show ?thesis by auto
qed

text \<open>After the URLs are wrapped, an escaped text is a sequence of clean characters and
  anchors around clean URLs without whitespace, and the pieces show the escaped text.\<close>

lemma linked_pieces:
  "set s \<inter> set html_special = {} \<Longrightarrow>
   \<exists>ps. replace_all urlPattern (\<lambda>caps. anchor (dollar1 caps)) s = concat (map render ps)
        \<and> list_all linked_piece ps \<and> concat (map visible ps) = s"
  (is "_ \<Longrightarrow> \<exists>ps. ?R s = _ \<and> _ \<and> _")
proof (induction urlPattern "\<lambda>caps. anchor (dollar1 caps)" s rule: replace_all.induct)
  case 1
  show ?case
  proof (cases "rx_match urlPattern [] None []")
    case None
    then have "?R [] = concat (map render []) \<and> list_all linked_piece []
        \<and> concat (map visible []) = []" by simp
    then show ?thesis by blast
  next
    case (Some a)
    obtain caps rest where a: "a = (caps, rest)" by (cases a)
    with Some url_caps [of "[]" caps rest]
    have "?R [] = concat (map render [Anchor (dollar1 caps)])
          \<and> list_all linked_piece [Anchor (dollar1 caps)]
          \<and> concat (map visible [Anchor (dollar1 caps)]) = []"
      by simp
    then show ?thesis by blast
  qed
next
  case (2 c s)
  from "2.prems" have cs: "set s \<inter> set html_special = {}" and c: "c \<notin> set html_special"
    by auto
  show ?case
  proof (cases "rx_match urlPattern (c # s) None []")
    case None
    from "2.hyps"(1) [OF None cs] obtain ps
      where "?R s = concat (map render ps)" "list_all linked_piece ps"
        "concat (map visible ps) = s"
      by (elim exE conjE)
    with None c
    have "?R (c # s) = concat (map render (Plain c # ps)) \<and> list_all linked_piece (Plain c # ps)
        \<and> concat (map visible (Plain c # ps)) = c # s"
      by simp
    then show ?thesis by blast
  next
    case (Some a)
    obtain caps rest where a: "a = (caps, rest)" by (cases a)
    from Some a url_caps [of "c # s" caps rest] "2.prems"
    have u: "list_all (\<lambda>c. c \<notin> set html_special \<and> nonspace c) (dollar1 caps)"
      and r: "set rest \<inter> set html_special = {}"
      and w: "dollar1 caps @ rest = c # s" by simp_all
    show ?thesis
    proof (cases "length rest < length (c # s)")
      case True
      from "2.hyps"(2) [OF Some [unfolded a] refl True r]
      obtain ps where "?R rest = concat (map render ps)" "list_all linked_piece ps"
        "concat (map visible ps) = rest"
        by (elim exE conjE)
      with Some a True u w
      have "?R (c # s) = concat (map render (Anchor (dollar1 caps) # ps))
            \<and> list_all linked_piece (Anchor (dollar1 caps) # ps)
            \<and> concat (map visible (Anchor (dollar1 caps) # ps)) = c # s"
        by simp
      then show ?thesis by blast
    next
      case False
      with w have e: "dollar1 caps = []"
        by (cases "dollar1 caps") (auto dest: arg_cong [where f = length])
      from "2.hyps"(3) [OF Some [unfolded a] refl False cs]
      obtain ps where "?R s = concat (map render ps)" "list_all linked_piece ps"
        "concat (map visible ps) = s"
        by (elim exE conjE)
      with Some a False u c e
      have "?R (c # s) = concat (map render (Anchor (dollar1 caps) # Plain c # ps))
            \<and> list_all linked_piece (Anchor (dollar1 caps) # Plain c # ps)
            \<and> concat (map visible (Anchor (dollar1 caps) # Plain c # ps)) = c # s"
        by simp
      then show ?thesis by blast
    qed
  qed
qed

lemma newline_to_br_append: "newline_to_br (a @ b) = newline_to_br a @ newline_to_br b"
  by (simp add: newline_to_br_def)

lemma newline_to_br_id: "10 \<notin> set s \<Longrightarrow> newline_to_br s = s"
  by (induction s) (auto simp: newline_to_br_def)

lemma nonspace_no_newline:
  assumes "list_all (\<lambda>c. c \<notin> set html_special \<and> nonspace c) u"
  shows "10 \<notin> set u"
proof
  assume "10 \<in> set u"
  with assms have "nonspace 10" by (simp add: list_all_iff)
  then show False by (simp add: nonspace_def space_chars_def)
qed

lemma newline_to_br_anchor: "10 \<notin> set u \<Longrightarrow> newline_to_br (anchor u) = anchor u"
  by (rule newline_to_br_id) (simp add: anchor_def js_def)

lemma newline_to_br_render:
  assumes "linked_piece p"
  shows "newline_to_br (render p) = render (br_piece p) \<and> clean (br_piece p)
         \<and> visible (br_piece p) = visible p"
proof (cases p)
  case (Plain c)
  with assms show ?thesis by (simp add: newline_to_br_def)
next
  case LineBreak
  with assms show ?thesis by simp
next
  case (Anchor u)
  with assms have "10 \<notin> set u" by (simp add: nonspace_no_newline)
  with Anchor assms show ?thesis
    by (simp add: newline_to_br_anchor list_all_iff)
qed

lemma newline_to_br_pieces:
  "list_all linked_piece ps
   \<Longrightarrow> newline_to_br (concat (map render ps)) = concat (map render (map br_piece ps))
       \<and> list_all clean (map br_piece ps)
       \<and> concat (map visible (map br_piece ps)) = concat (map visible ps)"
proof (induction ps)
  case Nil
  then show ?case by (simp add: newline_to_br_def)
next
  case (Cons p ps)
  then show ?case
    using newline_to_br_render [of p] by (simp add: newline_to_br_append)
qed

text \<open>The pieces are a real restriction: a tag that is not one of the function's own
  cannot be written as clean pieces.\<close>

lemma raw_tag_not_rendered:
  "\<not> (\<exists>ps. js ''<b>'' = concat (map render ps) \<and> list_all clean ps)"
proof
  assume "\<exists>ps. js ''<b>'' = concat (map render ps) \<and> list_all clean ps"
  then obtain ps where eq: "js ''<b>'' = concat (map render ps)" and ok: "list_all clean ps"
    by (elim exE conjE)
  show False
  proof (cases ps)
    case Nil
    with eq show False by (simp add: js_def)
  next
    case (Cons p qs)
    show False
    proof (cases p)
      case (Plain c)
      with Cons eq ok show False by (simp add: js_def html_special_def)
    next
      case LineBreak
      with Cons eq show False by (simp add: js_def)
    next
      case (Anchor u)
      with Cons eq show False by (simp add: js_def anchor_def)
    qed
  qed
qed

text \<open>Nor is the statement of the theorem met by an output that drops the text or by
  one that leaves an ampersand as it is.\<close>

lemma render_nonempty: "render p \<noteq> []"
  by (cases p) (simp_all add: js_def anchor_def)

lemma empty_output_not_accepted:
  "\<not> (\<exists>ps. [] = concat (map render ps) \<and> list_all clean ps
          \<and> concat (map visible ps) = concat (map entity (js ''a'')))"
proof
  assume "\<exists>ps. [] = concat (map render ps) \<and> list_all clean ps
          \<and> concat (map visible ps) = concat (map entity (js ''a''))"
  then obtain ps where r: "[] = concat (map render ps)"
    and v: "concat (map visible ps) = concat (map entity (js ''a''))"
    by (elim exE conjE)
  from r have "ps = []" by (cases ps) (simp_all add: render_nonempty)
  with v show False by (simp add: entity_def js_def)
qed

lemma raw_ampersand_not_accepted:
  "\<not> (\<exists>ps. js ''&'' = concat (map render ps) \<and> list_all clean ps
          \<and> concat (map visible ps) = concat (map entity (js ''&'')))"
proof
  assume "\<exists>ps. js ''&'' = concat (map render ps) \<and> list_all clean ps
          \<and> concat (map visible ps) = concat (map entity (js ''&''))"
  then obtain ps where r: "js ''&'' = concat (map render ps)"
    and v: "concat (map visible ps) = concat (map entity (js ''&''))"
    by (elim exE conjE)
  show False
  proof (cases ps)
    case Nil
    with r show False by (simp add: js_def)
  next
    case (Cons p qs)
    show False
    proof (cases p)
      case (Plain c)
      with Cons r have "concat (map render qs) = []" by (simp add: js_def)
      then have "qs = []" by (cases qs) (simp_all add: render_nonempty)
      with Plain Cons r v show False by (simp add: js_def entity_def)
    next
      case LineBreak
      with Cons r show False by (simp add: js_def)
    next
      case (Anchor u)
      with Cons r show False by (simp add: js_def anchor_def)
    qed
  qed
qed

lemma clamp_bounds: "1 \<le> clamp_conviction tie x \<and> clamp_conviction tie x \<le> 10"
  by (simp add: clamp_conviction_def)

section \<open>Theorems\<close>

text \<open>
  Claim C1. For every confidence and every sum of signal adjustments, whichever side won
  and however a half is rounded, the conviction score is an integer between 1 and 10. At
  the extremes the clamp is what holds the score in the range: confidence 100 with all
  three adjustments upwards gives 10 for a Proponent win and 1 for an Opponent win,
  confidence 0 with all three downwards gives 1 and 10.
\<close>

theorem conviction_in_range:
  "1 \<le> conviction_from tie w conf adj \<and> conviction_from tie w conf adj \<le> 10
   \<and> 1 \<le> calculate_conviction tie v g \<and> calculate_conviction tie v g \<le> 10
   \<and> conviction_from tie Proponent 100 3 = 10 \<and> conviction_from tie Opponent 100 3 = 1
   \<and> conviction_from tie Proponent 0 (- 3) = 1 \<and> conviction_from tie Opponent 0 (- 3) = 10"
proof -
  have "1 \<le> conviction_from tie w conf adj \<and> conviction_from tie w conf adj \<le> 10"
    for w conf adj
    by (simp add: conviction_from_def Let_def clamp_bounds)
  moreover have "conviction_from tie Proponent 100 3 = 10
    \<and> conviction_from tie Opponent 100 3 = 1
    \<and> conviction_from tie Proponent 0 (- 3) = 1
    \<and> conviction_from tie Opponent 0 (- 3) = 10"
    by (cases tie) (simp_all add: conviction_from_def clamp_conviction_def Let_def)
  ultimately show ?thesis
    by (simp add: calculate_conviction_def)
qed

theorem conviction_in_range_witness:
  "1 \<le> conviction_from HalfEven Opponent 55 (1 / 2)
   \<and> conviction_from HalfEven Opponent 55 (1 / 2) \<le> 10
   \<and> conviction_from HalfEven Opponent 55 (1 / 2) = 4
   \<and> calculate_conviction HalfEven
        \<lparr> winningRole = Proponent, confidence = 100, rationale = [] \<rparr>
        \<lparr> sentiment_skew = Bullish, institutional_flow = Bullish, unusual_activity = Bullish \<rparr>
       = 10
   \<and> conviction_from HalfEven Opponent 100 3 = 1"
  using conviction_in_range [of HalfEven Opponent 55 "1 / 2"
      "\<lparr> winningRole = Proponent, confidence = 100, rationale = [] \<rparr>"
      "\<lparr> sentiment_skew = Bullish, institutional_flow = Bullish, unusual_activity = Bullish \<rparr>"]
  by (simp add: conviction_from_def calculate_conviction_def clamp_conviction_def
      signalAdjustments_def Let_def)

text \<open>
  Claim C6. The valuation risk is a function of the valuation multiple alone and follows
  the threshold table: it is EXTREME exactly above 100, VERY HIGH exactly in (50, 100],
  HIGH exactly in (30, 50], MEDIUM exactly in (15, 30] and LOW exactly up to 15. A
  multiple of 302 is EXTREME and a multiple of 7.6 is LOW.
\<close>

theorem valuation_risk_table:
  "(valuation_risk pe = EXTREME) = (100 < pe)
   \<and> (valuation_risk pe = VERY_HIGH) = (50 < pe \<and> pe \<le> 100)
   \<and> (valuation_risk pe = HIGH) = (30 < pe \<and> pe \<le> 50)
   \<and> (valuation_risk pe = MEDIUM) = (15 < pe \<and> pe \<le> 30)
   \<and> (valuation_risk pe = LOW) = (pe \<le> 15)
   \<and> valuation (assess_risks pe d c) = valuation_risk pe
   \<and> valuation_risk 302 = EXTREME
   \<and> valuation_risk (76 / 10) = LOW"
  by (simp add: assess_risks_def)

theorem valuation_risk_table_witness:
  "valuation_risk (30278 / 100) = EXTREME \<and> valuation_risk (765 / 100) = LOW
   \<and> valuation_risk 100 = VERY_HIGH \<and> valuation_risk 45 = HIGH
   \<and> valuation_risk 15 = LOW \<and> valuation_risk 16 = MEDIUM
   \<and> valuation (assess_risks (30278 / 100) (Some (- 511 / 100)) 2) = EXTREME"
  using valuation_risk_table [of "30278 / 100" "Some (- 511 / 100)" 2]
    valuation_risk_table [of "765 / 100"] valuation_risk_table [of 100]
    valuation_risk_table [of 45] valuation_risk_table [of 15] valuation_risk_table [of 16]
  by simp

text \<open>
  Claim C7, as the claim states it, fails twice. Two runs of the risk assessor on the same
  valuation multiple and the same day change that differ only in the conviction score
  (2 and 9, on the Tesla figures of the notes) return different risk profiles. And the
  third risk is not keyed inversely off the verdict confidence: when the Opponent wins with
  no adjustment triggered, confidence 30 gives conviction 7 and the risk LOW, confidence
  90 gives conviction 1 and the risk HIGH, so the strictly lower confidence has the
  strictly lower risk.
\<close>

theorem risk_profile_depends_on_conviction:
  "assess_risks (30278 / 100) (Some (- 511 / 100)) 2
     \<noteq> assess_risks (30278 / 100) (Some (- 511 / 100)) 9
   \<and> calculate_conviction HalfUp
         \<lparr> winningRole = Opponent, confidence = 30, rationale = [] \<rparr> quiet = 7
   \<and> calculate_conviction HalfEven
         \<lparr> winningRole = Opponent, confidence = 30, rationale = [] \<rparr> quiet = 7
   \<and> calculate_conviction HalfUp
         \<lparr> winningRole = Opponent, confidence = 90, rationale = [] \<rparr> quiet = 1
   \<and> calculate_conviction HalfEven
         \<lparr> winningRole = Opponent, confidence = 90, rationale = [] \<rparr> quiet = 1
   \<and> market (assess_risks (30278 / 100) (Some (- 511 / 100)) 7) = LOW
   \<and> market (assess_risks (30278 / 100) (Some (- 511 / 100)) 1) = HIGH
   \<and> severity (market (assess_risks (30278 / 100) (Some (- 511 / 100)) 7))
       < severity (market (assess_risks (30278 / 100) (Some (- 511 / 100)) 1))"
  by (simp add: assess_risks_def calculate_conviction_def conviction_from_def
      clamp_conviction_def signalAdjustments_def quiet_def Let_def)

text \<open>
  Claim C7, amended. The valuation risk and the volatility risk do not depend on the
  conviction score. The third risk, the market risk, is a function of the conviction
  score and not of the verdict confidence: it is HIGH exactly when the conviction is below
  4, MEDIUM exactly when it is at least 4 and below 7, LOW exactly when it is at least 7.
  So it is keyed inversely off the conviction: a strictly lower conviction never gives a
  strictly lower market risk.
\<close>

theorem risk_profile_conviction:
  "valuation (assess_risks pe d c1) = valuation (assess_risks pe d c2)
   \<and> volatility (assess_risks pe d c1) = volatility (assess_risks pe d c2)
   \<and> (market (assess_risks pe d c1) = HIGH) = (c1 < 4)
   \<and> (market (assess_risks pe d c1) = MEDIUM) = (4 \<le> c1 \<and> c1 < 7)
   \<and> (market (assess_risks pe d c1) = LOW) = (7 \<le> c1)
   \<and> market (assess_risks pe d c1) \<noteq> VERY_HIGH
   \<and> market (assess_risks pe d c1) \<noteq> EXTREME
   \<and> (c1 < c2 \<longrightarrow>
        severity (market (assess_risks pe d c2)) \<le> severity (market (assess_risks pe d c1)))"
  by (simp add: assess_risks_def)

theorem risk_profile_conviction_witness:
  "(3::int) < 4
   \<and> valuation (assess_risks (30278 / 100) (Some (- 511 / 100)) 3) = EXTREME
   \<and> valuation (assess_risks (30278 / 100) (Some (- 511 / 100)) 4) = EXTREME
   \<and> volatility (assess_risks (30278 / 100) (Some (- 511 / 100)) 3) = HIGH
   \<and> volatility (assess_risks (30278 / 100) (Some (- 511 / 100)) 4) = HIGH
   \<and> market (assess_risks (30278 / 100) (Some (- 511 / 100)) 3) = HIGH
   \<and> market (assess_risks (30278 / 100) (Some (- 511 / 100)) 4) = MEDIUM
   \<and> market (assess_risks (765 / 100) None 6) = MEDIUM
   \<and> market (assess_risks (765 / 100) None 7) = LOW
   \<and> severity (market (assess_risks (30278 / 100) (Some (- 511 / 100)) 4))
       \<le> severity (market (assess_risks (30278 / 100) (Some (- 511 / 100)) 3))"
  using risk_profile_conviction [of "30278 / 100" "Some (- 511 / 100)" 3 4]
    risk_profile_conviction [of "765 / 100" None 6 7]
  by (simp add: assess_risks_def)

text \<open>
  Claim C8. The action table is monotonic: for scores c1 < c2 between 1 and 10 the table
  has an action for both, and the action of c2 is never more bearish than the action of
  c1. This holds wherever the two outer bands are cut.
\<close>

theorem action_monotonic:
  assumes "1 \<le> c1" and "c1 < c2" and "c2 \<le> 10"
  shows "case (lookup_action (action_table sb ss) c1, lookup_action (action_table sb ss) c2) of
           (Some a1, Some a2) \<Rightarrow> bullishness a1 \<le> bullishness a2
         | _ \<Rightarrow> False"
  using assms by (auto simp: lookup_action_def action_table_def)

theorem action_monotonic_witness:
  "(1::int) \<le> 3 \<and> (3::int) < 8 \<and> (8::int) \<le> 10
   \<and> lookup_action (action_table 9 1) 3 = Some Sell
   \<and> lookup_action (action_table 9 1) 8 = Some Buy
   \<and> bullishness Sell \<le> bullishness Buy"
  using action_monotonic [of 3 8 9 1]
  by (simp add: lookup_action_def action_table_def)

text \<open>
  Claim C9. For every text and ticker \<open>parseResearchData\<close> returns an object and throws
  nothing. The ticker of the object is the ticker given. Each optional property (the
  action, the conviction, the three prices, the key thesis, the Reddit and the Twitter
  sentiment, the current price and the market capitalisation of the market data, the
  three fundamentals) is present exactly when its regular expression matches; the list of
  headlines is always empty. A text that none of the expressions matches gives the object
  with the ticker alone, and no error.
\<close>

theorem parseResearchData_partial:
  "(case parseResearchData s t of
      Inl e \<Rightarrow> False
    | Inr d \<Rightarrow>
       ticker d = t
     \<and> (action d = None) = (rx_search recommendation_rx s = None)
     \<and> (conviction d = None) = (rx_search conviction_rx s = None)
     \<and> (current_price d = None) = (rx_search price_rx s = None)
     \<and> (target_price d = None) = (rx_search price_rx s = None)
     \<and> (upside_pct d = None) = (rx_search price_rx s = None)
     \<and> (key_thesis d = None) = (rx_search thesis_rx s = None)
     \<and> (reddit (sentiment_data d) = None) = (rx_search reddit_rx s = None)
     \<and> (twitter (sentiment_data d) = None) = (rx_search twitter_rx s = None)
     \<and> (price_data_current_price (price_data d) = None) =
         (case rx_search market_data_rx s of None \<Rightarrow> True
          | Some m \<Rightarrow> rx_search current_price_rx (fst m) = None)
     \<and> (market_cap (price_data d) = None) =
         (case rx_search market_data_rx s of None \<Rightarrow> True
          | Some m \<Rightarrow> rx_search market_cap_rx (fst m) = None)
     \<and> (pe_ratio (fundamentals d) = None) = (rx_search pe_rx s = None)
     \<and> (profit_margin (fundamentals d) = None) = (rx_search margin_rx s = None)
     \<and> (revenue_growth (fundamentals d) = None) = (rx_search growth_rx s = None)
     \<and> news_headlines d = [])
   \<and> (rx_search recommendation_rx s = None \<and> rx_search conviction_rx s = None
      \<and> rx_search price_rx s = None \<and> rx_search thesis_rx s = None
      \<and> rx_search market_data_rx s = None \<and> rx_search pe_rx s = None
      \<and> rx_search margin_rx s = None \<and> rx_search growth_rx s = None
      \<and> rx_search reddit_rx s = None \<and> rx_search twitter_rx s = None
      \<longrightarrow> parseResearchData s t = Inr (ticker_only t))"
proof -
  obtain pd where pd: "parse_price_data s = Inr pd"
     "(price_data_current_price pd = None) =
         (case rx_search market_data_rx s of None \<Rightarrow> True
          | Some m \<Rightarrow> rx_search current_price_rx (fst m) = None)"
     "(market_cap pd = None) =
         (case rx_search market_data_rx s of None \<Rightarrow> True
          | Some m \<Rightarrow> rx_search market_cap_rx (fst m) = None)"
    using parse_price_data_ok [of s] by (elim exE conjE)
  obtain rd where rd: "parse_reddit s = Inr rd" "(rd = None) = (rx_search reddit_rx s = None)"
    using parse_reddit_ok [of s] by (elim exE conjE)
  obtain tw where tw: "parse_twitter s = Inr tw" "(tw = None) = (rx_search twitter_rx s = None)"
    using parse_twitter_ok [of s] by (elim exE conjE)
  have fields: "case parseResearchData s t of
      Inl e \<Rightarrow> False
    | Inr d \<Rightarrow>
       ticker d = t
     \<and> (action d = None) = (rx_search recommendation_rx s = None)
     \<and> (conviction d = None) = (rx_search conviction_rx s = None)
     \<and> (current_price d = None) = (rx_search price_rx s = None)
     \<and> (target_price d = None) = (rx_search price_rx s = None)
     \<and> (upside_pct d = None) = (rx_search price_rx s = None)
     \<and> (key_thesis d = None) = (rx_search thesis_rx s = None)
     \<and> (reddit (sentiment_data d) = None) = (rx_search reddit_rx s = None)
     \<and> (twitter (sentiment_data d) = None) = (rx_search twitter_rx s = None)
     \<and> (price_data_current_price (price_data d) = None) =
         (case rx_search market_data_rx s of None \<Rightarrow> True
          | Some m \<Rightarrow> rx_search current_price_rx (fst m) = None)
     \<and> (market_cap (price_data d) = None) =
         (case rx_search market_data_rx s of None \<Rightarrow> True
          | Some m \<Rightarrow> rx_search market_cap_rx (fst m) = None)
     \<and> (pe_ratio (fundamentals d) = None) = (rx_search pe_rx s = None)
     \<and> (profit_margin (fundamentals d) = None) = (rx_search margin_rx s = None)
     \<and> (revenue_growth (fundamentals d) = None) = (rx_search growth_rx s = None)
     \<and> news_headlines d = []"
    using pd rd tw by (simp add: parseResearchData_def parse_fundamentals_def Let_def)
  have bare: "parseResearchData s t = Inr (ticker_only t)"
    if "rx_search recommendation_rx s = None" "rx_search conviction_rx s = None"
      "rx_search price_rx s = None" "rx_search thesis_rx s = None"
      "rx_search market_data_rx s = None" "rx_search pe_rx s = None"
      "rx_search margin_rx s = None" "rx_search growth_rx s = None"
      "rx_search reddit_rx s = None" "rx_search twitter_rx s = None"
    using that
    by (simp add: parseResearchData_def parse_price_data_def parse_fundamentals_def
        parse_reddit_def parse_twitter_def ticker_only_def Let_def)
  from fields bare show ?thesis by blast
qed

theorem parseResearchData_partial_witness:
  "parseResearchData (js ''How are you today?'') (js ''TSLA'') = Inr (ticker_only (js ''TSLA''))
   \<and> (case parseResearchData example_report (js ''TSLA'') of
        Inl e \<Rightarrow> False
      | Inr d \<Rightarrow>
          ticker d = js ''TSLA''
        \<and> action d = Some (Str (js ''SELL''))
        \<and> conviction d = Some (ParseInt (Str (js ''2'')))
        \<and> current_price d = Some (ParseFloat (Str (js ''436'')))
        \<and> target_price d = Some (ParseFloat (Str (js ''370.60'')))
        \<and> upside_pct d = Some (ParseFloat (Str (js ''-15'')))
        \<and> key_thesis d = Some (Str (js ''The increasing competition''))
        \<and> price_data d =
            \<lparr> price_data_current_price = None,
              market_cap = Some (Times (ParseFloat (Str (js ''1.53''))) (10 ^ 12)) \<rparr>
        \<and> fundamentals d =
            \<lparr> pe_ratio = Some (ParseFloat (Str (js ''302.78''))), profit_margin = None,
              revenue_growth = None \<rparr>
        \<and> reddit (sentiment_data d) = None
        \<and> twitter (sentiment_data d) =
            Some \<lparr> twitter_sentiment_label = js ''VERY BULLISH'',
                   twitter_sentiment_score = Over (ParseInt (Str (js ''75''))) 100 \<rparr>
        \<and> news_headlines d = [])"
  using parseResearchData_partial [of "js ''How are you today?''" "js ''TSLA''"]
    parseResearchData_partial [of example_report "js ''TSLA''"]
  by (simp add: parseResearchData_def parse_price_data_def parse_fundamentals_def
      parse_reddit_def parse_twitter_def scale_cap_def ticker_only_def Let_def
      recommendation_rx_def conviction_rx_def price_rx_def thesis_rx_def market_data_rx_def
      current_price_rx_def market_cap_rx_def pe_rx_def margin_rx_def growth_rx_def
      reddit_rx_def twitter_rx_def js_def space_chars_def digit_chars_def word_chars_def
      just_def target_emoji_def bulb_emoji_def chart_emoji_def check_emoji_def
      warning_emoji_def arrow_def example_report_def match_group_2 match_group_3)

text \<open>
  Claim C10. What \<open>linkifyText\<close> returns is the HTML of a sequence of pieces: characters
  none of which is \<open><\<close>, \<open>>\<close>, a quote or a newline, \<open><br>\<close> elements, and anchors
  whose URL holds none of these characters and no whitespace. The text these pieces show
  is the input with every \<open>&\<close>, \<open><\<close>, \<open>>\<close>, double quote and single quote replaced
  by its entity and nothing else changed. So every character of the input reaches the
  output escaped, every tag of the output is an anchor or a \<open><br>\<close> that the function
  has added, and no tag of the input survives.
\<close>

theorem linkifyText_escapes:
  "\<exists>ps. linkifyText s = concat (map render ps) \<and> list_all clean ps
        \<and> concat (map visible ps) = concat (map entity s)"
proof -
  have "set (escapeHtml s) \<inter> set html_special = {}"
    using escapeHtml_clean [of _ s] by auto
  from linked_pieces [OF this] obtain ps
    where l: "replace_all urlPattern (\<lambda>caps. anchor (dollar1 caps)) (escapeHtml s)
              = concat (map render ps)"
      and ok: "list_all linked_piece ps"
      and v: "concat (map visible ps) = escapeHtml s"
    by (elim exE conjE)
  have "linkifyText s = newline_to_br (concat (map render ps))"
    using l by (simp add: linkifyText_def Let_def replace_char newline_to_br_def)
  with newline_to_br_pieces [OF ok] v
  have "linkifyText s = concat (map render (map br_piece ps))
        \<and> list_all clean (map br_piece ps)
        \<and> concat (map visible (map br_piece ps)) = concat (map entity s)"
    by (simp add: escapeHtml_entity)
  then show ?thesis by blast
qed

theorem linkifyText_escapes_witness:
  \<open>linkifyText (js ''<img src=x> & http://a.io/?q=<i>'' @ [10] @ js ''it's "ok"'')
     = js ''&lt;img src=x&gt; &amp; '' @ anchor (js ''http://a.io/?q=&lt;i&gt;'')
       @ js ''<br>it&#039;s &quot;ok&quot;''
   \<and> (\<exists>ps. linkifyText (js ''<img src=x> & http://a.io/?q=<i>'' @ [10] @ js ''it's "ok"'')
              = concat (map render ps)
          \<and> list_all clean ps
          \<and> concat (map visible ps)
              = js ''&lt;img src=x&gt; &amp; http://a.io/?q=&lt;i&gt;'' @ [10]
                @ js ''it&#039;s &quot;ok&quot;'')\<close>
  using linkifyText_escapes
    [of \<open>js ''<img src=x> & http://a.io/?q=<i>'' @ [10] @ js ''it's "ok"''\<close>]
  by (simp add: entity_def js_def linkifyText_def escapeHtml_def urlPattern_def anchor_def
      space_chars_def just_def Let_def)

end
